theory Spec2Isabelle
  imports Main "HOL-Library.Word"
begin

section \<open>The Python video filter (libavfilter/vf\_python.c)\<close>

text \<open>
  The filter embeds a CPython interpreter in a libavfilter stage. Its five functions
  (\<open>init\<close>, \<open>check_and_call_init\<close>, \<open>filter_frame\<close>, \<open>check_and_call_uninit\<close>,
  \<open>uninit\<close>) are straight-line C over two external interfaces: the CPython C API and the
  libavfilter host. Neither interface is part of the file, so what they answer is a
  parameter of the model (\<open>environment\<close>), and every call that crosses one of them
  is recorded, with its result, in a trace. Statements about ``how often'', ``with which
  arguments'' and ``in which order'' are statements about that trace.

  Platform: LP64 (\<open>int\<close> is 32 bits, \<open>long\<close>, \<open>int64_t\<close> and pointers are 64 bits).
  Object construction (\<open>PyTuple_New\<close>, \<open>PyFloat_FromDouble\<close>, \<open>PyLong_FromLong\<close>,
  \<open>PyUnicode_DecodeFSDefault\<close> of a non-null string) is taken to succeed: memory
  exhaustion is outside the model.
\<close>

subsection \<open>Data\<close>

text \<open>\<open>AVRational\<close>: \<open>struct { int num; int den; }\<close>.\<close>

record AVRational =
  num :: "32 word"
  den :: "32 word"

text \<open>
  A C \<open>double\<close>. The file computes exactly one floating-point value,
  \<open>in->pts * av_q2d(inlink->time_base)\<close>, and never inspects it; the value is kept as
  the expression that produced it, so nothing is assumed about rounding.
  \<open>av_q2d\<close> (libavutil/rational.h) is not part of the file and stays a symbol.
\<close>

datatype cdouble =
    double_of_int64 "64 word"
  | av_q2d AVRational
  | double_mul cdouble cdouble

text \<open>
  The fields of \<open>AVFrame\<close> the filter reads. \<open>data0\<close> is \<open>data[0]\<close>, a
  \<open>uint8_t *\<close>.
\<close>

record AVFrame =
  pts :: "64 word"
  width :: "32 word"
  height :: "32 word"
  data0 :: "64 word"

record AVFilterLink =
  time_base :: AVRational

text \<open>
  A \<open>PyObject\<close>. Objects the filter builds itself are values; \<open>PyObj n\<close> is an object
  owned by the interpreter (a module, a function, a result). A \<open>PyObject *\<close> is a
  \<open>pyobject option\<close>, \<open>None\<close> being \<open>NULL\<close>. A tuple's slots are \<open>NULL\<close> until set.
\<close>

datatype pyobject =
    PyFloat cdouble
  | PyLong int
  | PyUnicode string
  | PyTuple "pyobject option list"
  | PyObj nat

text \<open>
  \<open>PythonContext\<close>, without the \<open>AVClass\<close> pointer. A \<open>char *\<close> option is
  \<open>None\<close> when it is \<open>NULL\<close>, which is the default of all five options.
\<close>

record PythonContext =
  module :: "string option"
  init_function :: "string option"
  init_args :: "string option"
  filter_function :: "string option"
  uninit_function :: "string option"
  pModule :: "pyobject option"
  pFunc :: "pyobject option"

text \<open>
  The calls that leave the file, in the order they are made. Calls that answer carry the
  answer. Frames and links are named by their addresses.
\<close>

datatype event =
    E_Py_Initialize
  | E_Py_FinalizeEx
  | E_PyImport_Import pyobject "pyobject option"
  | E_PyObject_GetAttrString pyobject string "pyobject option"
  | E_PyObject_CallObject pyobject pyobject "pyobject option"
  | E_Py_DECREF pyobject
  | E_av_log string
  | E_av_frame_make_writable nat
  | E_ff_filter_frame nat nat int

text \<open>
  What the two external interfaces answer. Every answer may depend on everything that
  happened before (the trace at the time of the call), so a handler with state, a module
  that changes its attributes, or a downstream stage that starts failing are all covered.
  \<open>writable_data0\<close> is the buffer address \<open>av_frame_make_writable\<close> leaves in
  \<open>data[0]\<close> (the old one when the frame was writable already).
\<close>

record environment =
  import_result :: "event list \<Rightarrow> pyobject \<Rightarrow> pyobject option"
  getattr_result :: "event list \<Rightarrow> pyobject \<Rightarrow> string \<Rightarrow> pyobject option"
  is_callable :: "pyobject \<Rightarrow> bool"
  call_result :: "event list \<Rightarrow> pyobject \<Rightarrow> pyobject \<Rightarrow> pyobject option"
  writable_data0 :: "event list \<Rightarrow> AVFrame \<Rightarrow> 64 word"
  downstream_result :: "event list \<Rightarrow> nat \<Rightarrow> nat \<Rightarrow> int"

text \<open>
  The state the file works on: the \<open>AVFilterContext\<close> (\<open>priv\<close>, and \<open>outputs[0]\<close>, the
  single output pad that \<open>python_outputs\<close> declares), the frames in memory, the trace,
  and the interpreter's error indicator (\<open>PyErr_Occurred() != NULL\<close>).
\<close>

record filter_state =
  priv :: PythonContext
  outputs0 :: nat
  frame_heap :: "nat \<Rightarrow> AVFrame"
  trace :: "event list"
  py_err :: bool

text \<open>
  Passing \<open>NULL\<close> where the C API or a macro dereferences its argument is undefined
  behaviour (in practice a segmentation fault). The model stops there and says which call
  it was.
\<close>

datatype fault = NULL_passed_to string

definition and_then :: "fault + 'a \<Rightarrow> ('a \<Rightarrow> fault + 'b) \<Rightarrow> fault + 'b" where
  "and_then m k = (case m of Inl e \<Rightarrow> Inl e | Inr a \<Rightarrow> k a)"

text \<open>
  Modelled from the spec: \<open>AVERROR\<close> (libavutil/error.h) and \<open>EINVAL\<close> (errno.h) are
  not part of the file. \<open>AVERROR(EINVAL)\<close> is the ``invalid-argument-class failure'' of
  section 7, a negative return code.
\<close>

definition EINVAL :: int where
  "EINVAL = 22"

definition AVERROR :: "int \<Rightarrow> int" where
  "AVERROR e = - e"

subsection \<open>The external calls\<close>

definition emit :: "event \<Rightarrow> filter_state \<Rightarrow> filter_state" where
  "emit e s = s\<lparr>trace := trace s @ [e]\<rparr>"

definition av_log :: "string \<Rightarrow> filter_state \<Rightarrow> filter_state" where
  "av_log msg s = emit (E_av_log msg) s"

definition Py_Initialize :: "filter_state \<Rightarrow> filter_state" where
  "Py_Initialize s = (emit E_Py_Initialize s)\<lparr>py_err := False\<rparr>"

definition Py_FinalizeEx :: "filter_state \<Rightarrow> filter_state" where
  "Py_FinalizeEx s = emit E_Py_FinalizeEx s"

text \<open>\<open>PyUnicode_DecodeFSDefault(s)\<close> starts with \<open>strlen(s)\<close>.\<close>

definition PyUnicode_DecodeFSDefault :: "string option \<Rightarrow> fault + pyobject" where
  "PyUnicode_DecodeFSDefault str =
     (case str of
        None \<Rightarrow> Inl (NULL_passed_to ''PyUnicode_DecodeFSDefault'')
      | Some cs \<Rightarrow> Inr (PyUnicode cs))"

definition PyTuple_New :: "nat \<Rightarrow> pyobject" where
  "PyTuple_New n = PyTuple (replicate n None)"

text \<open>
  \<open>PyTuple_SetItem\<close> stores into slot \<open>i\<close>; out of range (or on a non-tuple) it
  stores nothing and returns \<open>-1\<close>, which the file ignores.
\<close>

fun PyTuple_SetItem :: "pyobject \<Rightarrow> nat \<Rightarrow> pyobject \<Rightarrow> pyobject" where
  "PyTuple_SetItem (PyTuple items) i v =
     (if i < length items then PyTuple (items[i := Some v]) else PyTuple items)"
| "PyTuple_SetItem p i v = p"

definition PyFloat_FromDouble :: "cdouble \<Rightarrow> pyobject" where
  "PyFloat_FromDouble d = PyFloat d"

definition PyLong_FromLong :: "64 word \<Rightarrow> pyobject" where
  "PyLong_FromLong l = PyLong (sint l)"

text \<open>The usual arithmetic conversion \<open>int\<close> to \<open>long\<close>: sign extension.\<close>

definition long_of_int :: "32 word \<Rightarrow> 64 word" where
  "long_of_int i = signed i"

text \<open>
  \<open>PyImport_Import\<close>, \<open>PyObject_GetAttrString\<close> and \<open>PyObject_CallObject\<close> return
  \<open>NULL\<close> with the error indicator set when they fail, and leave the indicator alone
  when they succeed.
\<close>

definition PyImport_Import ::
  "environment \<Rightarrow> pyobject \<Rightarrow> filter_state \<Rightarrow> pyobject option \<times> filter_state" where
  "PyImport_Import env name s =
     (let r = import_result env (trace s) name
      in (r, (emit (E_PyImport_Import name r) s)\<lparr>py_err := py_err s \<or> r = None\<rparr>))"

definition PyObject_GetAttrString ::
  "environment \<Rightarrow> pyobject option \<Rightarrow> string option \<Rightarrow> filter_state
    \<Rightarrow> fault + pyobject option \<times> filter_state" where
  "PyObject_GetAttrString env obj attr s =
     (case obj of
        None \<Rightarrow> Inl (NULL_passed_to ''PyObject_GetAttrString'')
      | Some ob \<Rightarrow>
         (case attr of
            None \<Rightarrow> Inl (NULL_passed_to ''PyObject_GetAttrString'')
          | Some a \<Rightarrow>
             (let r = getattr_result env (trace s) ob a
              in Inr (r, (emit (E_PyObject_GetAttrString ob a r) s)
                           \<lparr>py_err := py_err s \<or> r = None\<rparr>))))"

text \<open>\<open>PyCallable_Check(NULL)\<close> is 0.\<close>

definition PyCallable_Check :: "environment \<Rightarrow> pyobject option \<Rightarrow> bool" where
  "PyCallable_Check env obj = (case obj of None \<Rightarrow> False | Some ob \<Rightarrow> is_callable env ob)"

definition PyObject_CallObject ::
  "environment \<Rightarrow> pyobject option \<Rightarrow> pyobject \<Rightarrow> filter_state
    \<Rightarrow> fault + pyobject option \<times> filter_state" where
  "PyObject_CallObject env callable args s =
     (case callable of
        None \<Rightarrow> Inl (NULL_passed_to ''PyObject_CallObject'')
      | Some f \<Rightarrow>
         (let r = call_result env (trace s) f args
          in Inr (r, (emit (E_PyObject_CallObject f args r) s)
                       \<lparr>py_err := py_err s \<or> r = None\<rparr>)))"

text \<open>\<open>Py_DECREF\<close> dereferences its argument; \<open>Py_XDECREF\<close> tests it first.\<close>

definition Py_DECREF :: "pyobject option \<Rightarrow> filter_state \<Rightarrow> fault + filter_state" where
  "Py_DECREF obj s =
     (case obj of
        None \<Rightarrow> Inl (NULL_passed_to ''Py_DECREF'')
      | Some ob \<Rightarrow> Inr (emit (E_Py_DECREF ob) s))"

definition Py_XDECREF :: "pyobject option \<Rightarrow> filter_state \<Rightarrow> filter_state" where
  "Py_XDECREF obj s = (case obj of None \<Rightarrow> s | Some ob \<Rightarrow> emit (E_Py_DECREF ob) s)"

text \<open>
  Modelled from the spec: \<open>av_frame_make_writable\<close> (libavutil/frame.c, not part of the
  file) is the ``external buffer-ownership collaborator'' of section 4.3. It leaves the
  frame object where it is and its timing and geometry as they are; the buffer behind
  \<open>data[0]\<close> may be replaced by a private copy.
\<close>

definition av_frame_make_writable :: "environment \<Rightarrow> nat \<Rightarrow> filter_state \<Rightarrow> filter_state" where
  "av_frame_make_writable env fp s =
     (let fr = frame_heap s fp;
          fr' = fr\<lparr>data0 := writable_data0 env (trace s) fr\<rparr>
      in (emit (E_av_frame_make_writable fp) s)\<lparr>frame_heap := (frame_heap s)(fp := fr')\<rparr>)"

definition ff_filter_frame ::
  "environment \<Rightarrow> nat \<Rightarrow> nat \<Rightarrow> filter_state \<Rightarrow> int \<times> filter_state" where
  "ff_filter_frame env link fp s =
     (let r = downstream_result env (trace s) link fp
      in (r, emit (E_ff_filter_frame link fp r) s))"

subsection \<open>The functions of the file\<close>

definition filter_frame ::
  "environment \<Rightarrow> AVFilterLink \<Rightarrow> nat \<Rightarrow> filter_state \<Rightarrow> fault + int \<times> filter_state" where
  "filter_frame env inlink inp s0 =
     (let outlink = outputs0 s0;
          s1 = av_frame_make_writable env inp s0;
          fr = frame_heap s1 inp;
          pArgs = PyTuple_New 4;
          pValue = PyFloat_FromDouble
                     (double_mul (double_of_int64 (pts fr)) (av_q2d (time_base inlink)));
          pArgs = PyTuple_SetItem pArgs 0 pValue;
          pValue = PyLong_FromLong (long_of_int (width fr));
          pArgs = PyTuple_SetItem pArgs 1 pValue;
          pValue = PyLong_FromLong (long_of_int (height fr));
          pArgs = PyTuple_SetItem pArgs 2 pValue;
          pValue = PyLong_FromLong (data0 fr);
          pArgs = PyTuple_SetItem pArgs 3 pValue
      in and_then (PyObject_CallObject env (pFunc (priv s1)) pArgs s1) (\<lambda>(pValue, s2).
         and_then (Py_DECREF (Some pArgs) s2) (\<lambda>s3.
         and_then (if pValue \<noteq> None then Py_DECREF pValue s3 else Inr s3) (\<lambda>s4.
         Inr (ff_filter_frame env outlink inp s4)))))"

definition check_and_call_init ::
  "environment \<Rightarrow> filter_state \<Rightarrow> fault + int \<times> filter_state" where
  "check_and_call_init env s0 =
     (if init_function (priv s0) \<noteq> None then
        and_then (PyObject_GetAttrString env (pModule (priv s0)) (init_function (priv s0)) s0)
          (\<lambda>(pFunc, s1).
            if pFunc \<noteq> None \<and> PyCallable_Check env pFunc then
              (let pArgs = PyTuple_New 1
               in and_then (PyUnicode_DecodeFSDefault (init_args (priv s1))) (\<lambda>pValue.
                  let pArgs = PyTuple_SetItem pArgs 0 pValue
                  in and_then (PyObject_CallObject env pFunc pArgs s1) (\<lambda>(pValue, s2).
                     and_then (Py_DECREF (Some pArgs) s2) (\<lambda>s3.
                     Inr (0, Py_XDECREF pFunc (Py_XDECREF pValue s3))))))
            else Inr (- 1, Py_XDECREF pFunc s1))
      else Inr (0, s0))"

definition check_and_call_uninit ::
  "environment \<Rightarrow> filter_state \<Rightarrow> fault + int \<times> filter_state" where
  "check_and_call_uninit env s0 =
     (if uninit_function (priv s0) \<noteq> None then
        and_then (PyObject_GetAttrString env (pModule (priv s0)) (uninit_function (priv s0)) s0)
          (\<lambda>(pFunc, s1).
            if pFunc \<noteq> None \<and> PyCallable_Check env pFunc then
              (let pArgs = PyTuple_New 0
               in and_then (PyObject_CallObject env pFunc pArgs s1) (\<lambda>(pValue, s2).
                  and_then (Py_DECREF (Some pArgs) s2) (\<lambda>s3.
                  Inr (0, Py_XDECREF pFunc (Py_XDECREF pValue s3)))))
            else Inr (- 1, Py_XDECREF pFunc s1))
      else Inr (0, s0))"

definition init :: "environment \<Rightarrow> filter_state \<Rightarrow> fault + int \<times> filter_state" where
  "init env s0 =
     (let s1 = Py_Initialize s0
      in and_then (PyUnicode_DecodeFSDefault (module (priv s1))) (\<lambda>pName.
         let (m, s2) = PyImport_Import env pName s1;
             s3 = s2\<lparr>priv := (priv s2)\<lparr>pModule := m\<rparr>\<rparr>
         in and_then (Py_DECREF (Some pName) s3) (\<lambda>s4.
            if pModule (priv s4) \<noteq> None then
              and_then (PyObject_GetAttrString env (pModule (priv s4))
                          (filter_function (priv s4)) s4) (\<lambda>(f, s5).
                let s6 = s5\<lparr>priv := (priv s5)\<lparr>pFunc := f\<rparr>\<rparr>
                in if pFunc (priv s6) = None \<or> \<not> PyCallable_Check env (pFunc (priv s6)) then
                     Inr (AVERROR EINVAL, av_log ''could not load filter function\<newline>'' s6)
                   else
                     and_then (check_and_call_init env s6) (\<lambda>(r, s7).
                       if r < 0 then
                         Inr (AVERROR EINVAL, av_log ''could not call init function\<newline>'' s7)
                       else Inr (0, s7)))
            else Inr (AVERROR EINVAL, av_log ''could not load module\<newline>'' s4))))"

definition uninit :: "environment \<Rightarrow> filter_state \<Rightarrow> fault + filter_state" where
  "uninit env s0 =
     and_then (check_and_call_uninit env s0) (\<lambda>(r, s1).
       let s2 = (if r < 0 then av_log ''could not call uninit function\<newline>'' s1 else s1)
       in and_then (Py_DECREF (pFunc (priv s2)) s2) (\<lambda>s3.
          and_then (Py_DECREF (pModule (priv s3)) s3) (\<lambda>s4.
          Inr (Py_FinalizeEx s4))))"

subsection \<open>The host's side\<close>

text \<open>
  Modelled from the spec: the host that drives the stage (libavfilter's graph code) is not
  part of the file. Section 4.3 gives its state machine:
  \<open>Uninitialized \<rightarrow> Activating \<rightarrow> Steady (loop: handle frame)* \<rightarrow> Deactivating \<rightarrow> Terminated\<close>,
  and ``Activating fails \<rightarrow> transition directly to Terminated; no frames are ever
  processed''. \<open>steady_loop\<close> hands the arriving frames to \<open>filter_frame\<close> one at a
  time, in order; \<open>stage\<close> is one whole life of the stage. A negative return code of
  \<open>init\<close> is a failed activation. That the host, when it later frees a filter whose
  activation failed, calls \<open>uninit\<close> on it is not part of this state machine;
  \<open>uninit\<close> on such a state is looked at on its own.
\<close>

fun steady_loop ::
  "environment \<Rightarrow> AVFilterLink \<Rightarrow> nat list \<Rightarrow> filter_state \<Rightarrow> fault + filter_state" where
  "steady_loop env inlink [] s = Inr s"
| "steady_loop env inlink (inp # inps) s =
     and_then (filter_frame env inlink inp s) (\<lambda>(rc, s'). steady_loop env inlink inps s')"

definition stage ::
  "environment \<Rightarrow> AVFilterLink \<Rightarrow> nat list \<Rightarrow> filter_state \<Rightarrow> fault + filter_state" where
  "stage env inlink inps s0 =
     and_then (init env s0) (\<lambda>(rc, s1).
       if rc < 0 then Inr s1
       else and_then (steady_loop env inlink inps s1) (\<lambda>s2. uninit env s2))"

subsection \<open>Reading the trace\<close>

text \<open>The calls made between two states: what the later trace has beyond the earlier.\<close>

definition since :: "filter_state \<Rightarrow> filter_state \<Rightarrow> event list" where
  "since s s' = drop (length (trace s)) (trace s')"

text \<open>The invocations of Python callables: callee, argument tuple, result.\<close>

fun calls_of :: "event list \<Rightarrow> (pyobject \<times> pyobject \<times> pyobject option) list" where
  "calls_of [] = []"
| "calls_of (E_PyObject_CallObject f a r # es) = (f, a, r) # calls_of es"
| "calls_of (e # es) = calls_of es"

text \<open>The attribute lookups: object, name, result.\<close>

fun lookups :: "event list \<Rightarrow> (pyobject \<times> string \<times> pyobject option) list" where
  "lookups [] = []"
| "lookups (E_PyObject_GetAttrString ob a r # es) = (ob, a, r) # lookups es"
| "lookups (e # es) = lookups es"

text \<open>The frames handed downstream: output link and frame.\<close>

fun forwarded :: "event list \<Rightarrow> (nat \<times> nat) list" where
  "forwarded [] = []"
| "forwarded (E_ff_filter_frame l fp r # es) = (l, fp) # forwarded es"
| "forwarded (e # es) = forwarded es"

text \<open>The references given up.\<close>

fun released :: "event list \<Rightarrow> pyobject list" where
  "released [] = []"
| "released (E_Py_DECREF ob # es) = ob # released es"
| "released (e # es) = released es"

text \<open>
  Steady state, as far as the file's own data goes: both persistent references are held
  and the filter reference passes \<open>PyCallable_Check\<close>.
\<close>

definition steady :: "environment \<Rightarrow> filter_state \<Rightarrow> bool" where
  "steady env s \<longleftrightarrow>
     pModule (priv s) \<noteq> None \<and> pFunc (priv s) \<noteq> None \<and> PyCallable_Check env (pFunc (priv s))"

subsection \<open>A concrete stage\<close>

text \<open>
  The example scenario of section 8: module \<open>demo\<close> with \<open>process\<close>, \<open>setup\<close> and
  \<open>teardown\<close>, and a non-callable attribute \<open>version\<close>. \<open>PyObj 0\<close> plays \<open>None\<close>,
  the value a Python function returns by default. Frames are writable and the downstream
  stage accepts every frame.
\<close>

definition demo_env :: environment where
  "demo_env = \<lparr>
     import_result = (\<lambda>tr name. if name = PyUnicode ''demo'' then Some (PyObj 1) else None),
     getattr_result = (\<lambda>tr ob a.
        if ob \<noteq> PyObj 1 then None
        else if a = ''process'' then Some (PyObj 2)
        else if a = ''setup'' then Some (PyObj 3)
        else if a = ''teardown'' then Some (PyObj 4)
        else if a = ''version'' then Some (PyLong 1)
        else None),
     is_callable = (\<lambda>ob. ob = PyObj 2 \<or> ob = PyObj 3 \<or> ob = PyObj 4),
     call_result = (\<lambda>tr f a. Some (PyObj 0)),
     writable_data0 = (\<lambda>tr fr. data0 fr),
     downstream_result = (\<lambda>tr l fp. 0) \<rparr>"

text \<open>The same interpreter with every call raising an exception.\<close>

definition raising_env :: environment where
  "raising_env = demo_env\<lparr>call_result := (\<lambda>tr f a. None)\<rparr>"

definition demo_link :: AVFilterLink where
  "demo_link = \<lparr>time_base = \<lparr>num = 1, den = 25\<rparr>\<rparr>"

definition demo_frame :: "nat \<Rightarrow> AVFrame" where
  "demo_frame n = \<lparr>pts = of_nat n, width = 64, height = 64, data0 = 4096 * of_nat (Suc n)\<rparr>"

text \<open>
  The stage before activation: \<open>priv\<close> is zero-initialised by the host, with the options
  written over it.
\<close>

definition fresh :: "PythonContext \<Rightarrow> filter_state" where
  "fresh cfg = \<lparr>priv = cfg\<lparr>pModule := None, pFunc := None\<rparr>, outputs0 = 7,
                 frame_heap = demo_frame, trace = [], py_err = False\<rparr>"

definition demo_config :: PythonContext where
  "demo_config = \<lparr>module = Some ''demo'', init_function = Some ''setup'',
     init_args = Some ''gain=2'', filter_function = Some ''process'',
     uninit_function = None, pModule = None, pFunc = None\<rparr>"

text \<open>The stage once \<open>init\<close> has bound \<open>demo\<close> and \<open>process\<close>.\<close>

definition bound :: "PythonContext \<Rightarrow> filter_state" where
  "bound cfg = \<lparr>priv = cfg\<lparr>pModule := Some (PyObj 1), pFunc := Some (PyObj 2)\<rparr>,
                 outputs0 = 7, frame_heap = demo_frame, trace = [], py_err = False\<rparr>"


subsection \<open>Auxiliary facts\<close>

lemmas api_defs = emit_def av_log_def Py_Initialize_def Py_FinalizeEx_def
  PyUnicode_DecodeFSDefault_def PyFloat_FromDouble_def PyLong_FromLong_def PyImport_Import_def
  PyObject_GetAttrString_def PyCallable_Check_def PyObject_CallObject_def Py_DECREF_def
  Py_XDECREF_def av_frame_make_writable_def ff_filter_frame_def and_then_def

lemmas fn_defs = init_def check_and_call_init_def check_and_call_uninit_def uninit_def

lemmas demo_defs = demo_env_def raising_env_def demo_link_def demo_frame_def fresh_def
  demo_config_def bound_def

lemma sint_long_of_int: "sint (long_of_int w) = sint w"
  unfolding long_of_int_def
  by (simp add: sint_up_scast is_up_def source_size_def target_size_def word_size)

lemma tuple4:
  "PyTuple_SetItem (PyTuple_SetItem (PyTuple_SetItem (PyTuple_SetItem (PyTuple_New 4) 0 a)
      (Suc 0) b) 2 c) 3 d = PyTuple [Some a, Some b, Some c, Some d]"
  by (simp add: PyTuple_New_def numeral_eq_Suc)

lemma tuple1: "PyTuple_SetItem (PyTuple_New (Suc 0)) 0 a = PyTuple [Some a]"
  by (simp add: PyTuple_New_def)

lemma tuple0: "PyTuple_New 0 = PyTuple []"
  by (simp add: PyTuple_New_def)

lemma calls_of_append: "calls_of (xs @ ys) = calls_of xs @ calls_of ys"
  by (induction xs rule: calls_of.induct) simp_all

lemma forwarded_append: "forwarded (xs @ ys) = forwarded xs @ forwarded ys"
  by (induction xs rule: forwarded.induct) simp_all

lemma lookups_append: "lookups (xs @ ys) = lookups xs @ lookups ys"
  by (induction xs rule: lookups.induct) simp_all

lemma released_append: "released (xs @ ys) = released xs @ released ys"
  by (induction xs rule: released.induct) simp_all

lemma since_append: "trace s' = trace s @ seg \<Longrightarrow> since s s' = seg"
  by (simp add: since_def)

lemma steady_pFunc: "steady env s \<Longrightarrow> \<exists>f. pFunc (priv s) = Some f \<and> is_callable env f"
  by (auto simp: steady_def PyCallable_Check_def split: option.splits)

text \<open>One run of \<open>filter_frame\<close> with a filter reference in place, step by step.\<close>

lemma filter_frame_steps:
  assumes "pFunc (priv s) = Some f"
  shows "\<exists>rc s' r args.
    filter_frame env inlink inp s = Inr (rc, s') \<and>
    args = PyTuple [Some (PyFloat (double_mul (double_of_int64 (pts (frame_heap s inp)))
                                              (av_q2d (time_base inlink)))),
                    Some (PyLong (sint (width (frame_heap s inp)))),
                    Some (PyLong (sint (height (frame_heap s inp)))),
                    Some (PyLong (sint (data0 (frame_heap s' inp))))] \<and>
    r = call_result env (trace s @ [E_av_frame_make_writable inp]) f args \<and>
    trace s' = trace s @ [E_av_frame_make_writable inp, E_PyObject_CallObject f args r,
                          E_Py_DECREF args]
               @ (case r of None \<Rightarrow> [] | Some v \<Rightarrow> [E_Py_DECREF v])
               @ [E_ff_filter_frame (outputs0 s) inp rc] \<and>
    rc = downstream_result env (butlast (trace s')) (outputs0 s) inp \<and>
    priv s' = priv s \<and> outputs0 s' = outputs0 s \<and>
    frame_heap s' = (frame_heap s)(inp := (frame_heap s inp)
                       \<lparr>data0 := writable_data0 env (trace s) (frame_heap s inp)\<rparr>) \<and>
    py_err s' = (py_err s \<or> r = None)"
  using assms
  by (cases "call_result env (trace s @ [E_av_frame_make_writable inp]) f
        (PyTuple [Some (PyFloat (double_mul (double_of_int64 (pts (frame_heap s inp)))
                                              (av_q2d (time_base inlink)))),
                    Some (PyLong (sint (width (frame_heap s inp)))),
                    Some (PyLong (sint (height (frame_heap s inp)))),
                    Some (PyLong (sint (writable_data0 env (trace s) (frame_heap s inp))))])")
     (simp_all add: filter_frame_def tuple4 api_defs Let_def sint_long_of_int butlast_append)

text \<open>The steady loop hands every frame on, in order, and calls the handler once each.\<close>

lemma steady_loop_steps:
  assumes "pFunc (priv s) = Some f"
  shows "\<exists>s' seg. steady_loop env inlink inps s = Inr s' \<and> trace s' = trace s @ seg \<and>
    priv s' = priv s \<and> outputs0 s' = outputs0 s \<and>
    forwarded seg = map (Pair (outputs0 s)) inps \<and>
    map fst (calls_of seg) = replicate (length inps) f"
  using assms
proof (induction inps arbitrary: s)
  case Nil
  then show ?case by simp
next
  case (Cons inp inps)
  from filter_frame_steps [OF Cons.prems, of env inlink inp]
  obtain rc s1 r args where
    run: "filter_frame env inlink inp s = Inr (rc, s1)" and
    tr: "trace s1 = trace s @ [E_av_frame_make_writable inp, E_PyObject_CallObject f args r,
                          E_Py_DECREF args]
               @ (case r of None \<Rightarrow> [] | Some v \<Rightarrow> [E_Py_DECREF v])
               @ [E_ff_filter_frame (outputs0 s) inp rc]" and
    keep: "priv s1 = priv s" "outputs0 s1 = outputs0 s"
    by blast
  from keep Cons.prems have "pFunc (priv s1) = Some f" by simp
  from Cons.IH [OF this] obtain s' seg where
    rest: "steady_loop env inlink inps s1 = Inr s'" "trace s' = trace s1 @ seg"
      "priv s' = priv s1" "outputs0 s' = outputs0 s1"
      "forwarded seg = map (Pair (outputs0 s1)) inps"
      "map fst (calls_of seg) = replicate (length inps) f"
    by blast
  let ?seg = "[E_av_frame_make_writable inp, E_PyObject_CallObject f args r,
                          E_Py_DECREF args]
               @ (case r of None \<Rightarrow> [] | Some v \<Rightarrow> [E_Py_DECREF v])
               @ [E_ff_filter_frame (outputs0 s) inp rc] @ seg"
  have "steady_loop env inlink (inp # inps) s = Inr s'"
    using run rest(1) by (simp add: and_then_def)
  moreover have "trace s' = trace s @ ?seg"
    using tr rest(2) by simp
  moreover have "forwarded ?seg = map (Pair (outputs0 s)) (inp # inps)"
    using rest(5) keep by (simp add: forwarded_append split: option.splits)
  moreover have "map fst (calls_of ?seg) = replicate (length (inp # inps)) f"
    using rest(6) by (simp add: calls_of_append split: option.splits)
  ultimately show ?case
    using rest(3,4) keep by (intro exI [of _ s'] exI [of _ ?seg]) simp
qed

subsection \<open>The per-frame call\<close>

text \<open>
  Claim C1. In steady state \<open>filter_frame\<close> returns, and between its entry and its
  return the bound filter callable is invoked exactly once. The argument is one tuple of
  four elements: a float, the product of the frame's \<open>pts\<close> (converted to
  \<open>double\<close>) and \<open>av_q2d\<close> of the input link's time base; the frame's width; the
  frame's height; and \<open>data[0]\<close>, the address of the first data plane, as the \<open>long\<close>
  it converts to. The address is read after \<open>av_frame_make_writable\<close>, which leaves
  everything else of the frame alone, so it is the address of the buffer the frame has
  when the handler runs and when the frame is handed on.
\<close>

theorem filter_frame_call_arguments:
  assumes "steady env s"
  shows "\<exists>rc s' f r.
    filter_frame env inlink inp s = Inr (rc, s') \<and> pFunc (priv s) = Some f \<and>
    calls_of (since s s') =
      [(f, PyTuple [Some (PyFloat (double_mul (double_of_int64 (pts (frame_heap s inp)))
                                              (av_q2d (time_base inlink)))),
                    Some (PyLong (sint (width (frame_heap s inp)))),
                    Some (PyLong (sint (height (frame_heap s inp)))),
                    Some (PyLong (sint (data0 (frame_heap s' inp))))], r)] \<and>
    frame_heap s' inp = (frame_heap s inp)\<lparr>data0 := data0 (frame_heap s' inp)\<rparr>"
proof -
  from assms obtain f where f: "pFunc (priv s) = Some f"
    using steady_pFunc by blast
  from filter_frame_steps [OF f, of env inlink inp] obtain rc s' r args where
    run: "filter_frame env inlink inp s = Inr (rc, s')" and
    args: "args = PyTuple [Some (PyFloat (double_mul (double_of_int64 (pts (frame_heap s inp)))
                                              (av_q2d (time_base inlink)))),
                    Some (PyLong (sint (width (frame_heap s inp)))),
                    Some (PyLong (sint (height (frame_heap s inp)))),
                    Some (PyLong (sint (data0 (frame_heap s' inp))))]" and
    tr: "trace s' = trace s @ [E_av_frame_make_writable inp, E_PyObject_CallObject f args r,
                          E_Py_DECREF args]
               @ (case r of None \<Rightarrow> [] | Some v \<Rightarrow> [E_Py_DECREF v])
               @ [E_ff_filter_frame (outputs0 s) inp rc]" and
    heap: "frame_heap s' = (frame_heap s)(inp := (frame_heap s inp)
                       \<lparr>data0 := writable_data0 env (trace s) (frame_heap s inp)\<rparr>)"
    by blast
  have "calls_of (since s s') = [(f, args, r)]"
    using since_append [OF tr] by (simp add: calls_of_append split: option.splits)
  moreover have "frame_heap s' inp = (frame_heap s inp)\<lparr>data0 := data0 (frame_heap s' inp)\<rparr>"
    by (simp add: heap)
  ultimately show ?thesis
    using run f args by blast
qed

theorem filter_frame_call_arguments_witness:
  "steady demo_env (bound demo_config) \<and>
   (\<exists>rc s' f r.
      filter_frame demo_env demo_link 1 (bound demo_config) = Inr (rc, s') \<and>
      pFunc (priv (bound demo_config)) = Some f \<and>
      calls_of (since (bound demo_config) s') =
        [(f, PyTuple [Some (PyFloat (double_mul (double_of_int64 1)
                                                (av_q2d \<lparr>num = 1, den = 25\<rparr>))),
                      Some (PyLong 64), Some (PyLong 64), Some (PyLong 8192)], r)])"
proof -
  have h: "steady demo_env (bound demo_config)"
    by (simp add: steady_def PyCallable_Check_def demo_defs)
  have d: "data0 (frame_heap (bound demo_config) 1) = 8192" 
    by (simp add: demo_defs)
  from filter_frame_call_arguments [OF h, of demo_link 1] obtain rc s' f r where
    *: "filter_frame demo_env demo_link 1 (bound demo_config) = Inr (rc, s')"
       "pFunc (priv (bound demo_config)) = Some f"
       "calls_of (since (bound demo_config) s') =
      [(f, PyTuple [Some (PyFloat (double_mul (double_of_int64 (pts (frame_heap (bound demo_config) 1)))
                                              (av_q2d (time_base demo_link)))),
                    Some (PyLong (sint (width (frame_heap (bound demo_config) 1)))),
                    Some (PyLong (sint (height (frame_heap (bound demo_config) 1)))),
                    Some (PyLong (sint (data0 (frame_heap s' 1))))], r)]"
    by blast
  have "data0 (frame_heap s' 1) = 8192"
    using *(1) by (auto simp: filter_frame_def api_defs Let_def demo_defs split: option.splits)
  with * h show ?thesis
    by (simp add: demo_defs)
qed

text \<open>
  Claim C2. In steady state the last thing \<open>filter_frame\<close> does, after the one handler
  call, is to hand the incoming frame (the same \<open>AVFrame\<close> object, \<open>inp\<close>) to
  \<open>outputs[0]\<close>, once, and its return code is the downstream stage's. The handler's
  return value is used for nothing: whatever the call returns (any \<open>call_result\<close>),
  the same frame goes to the same link, and the frame's contents and the filter's context
  come out the same.
\<close>

theorem filter_frame_forwards_original_frame:
  assumes "steady env s"
  shows "\<exists>rc s' seg.
    filter_frame env inlink inp s = Inr (rc, s') \<and>
    since s s' = seg @ [E_ff_filter_frame (outputs0 s) inp rc] \<and>
    length (calls_of seg) = 1 \<and> forwarded seg = [] \<and>
    rc = downstream_result env (trace s @ seg) (outputs0 s) inp \<and>
    (\<forall>c. \<exists>rc2 s2.
       filter_frame (env\<lparr>call_result := c\<rparr>) inlink inp s = Inr (rc2, s2) \<and>
       forwarded (since s s2) = [(outputs0 s, inp)] \<and>
       frame_heap s2 = frame_heap s' \<and> priv s2 = priv s' \<and> outputs0 s2 = outputs0 s')"
proof -
  from assms obtain f where f: "pFunc (priv s) = Some f"
    using steady_pFunc by blast
  from filter_frame_steps [OF f, of env inlink inp] obtain rc s' r args where
    run: "filter_frame env inlink inp s = Inr (rc, s')" and
    tr: "trace s' = trace s @ [E_av_frame_make_writable inp, E_PyObject_CallObject f args r,
                          E_Py_DECREF args]
               @ (case r of None \<Rightarrow> [] | Some v \<Rightarrow> [E_Py_DECREF v])
               @ [E_ff_filter_frame (outputs0 s) inp rc]" and
    rc: "rc = downstream_result env (butlast (trace s')) (outputs0 s) inp" and
    keep: "priv s' = priv s" "outputs0 s' = outputs0 s" and
    heap: "frame_heap s' = (frame_heap s)(inp := (frame_heap s inp)
                       \<lparr>data0 := writable_data0 env (trace s) (frame_heap s inp)\<rparr>)"
    by blast
  let ?seg = "[E_av_frame_make_writable inp, E_PyObject_CallObject f args r, E_Py_DECREF args]
               @ (case r of None \<Rightarrow> [] | Some v \<Rightarrow> [E_Py_DECREF v])"
  have seg: "since s s' = ?seg @ [E_ff_filter_frame (outputs0 s) inp rc]"
    using since_append [OF tr] by simp
  have one: "length (calls_of ?seg) = 1" "forwarded ?seg = []"
    by (simp_all add: calls_of_append forwarded_append split: option.splits)
  have rc': "rc = downstream_result env (trace s @ ?seg) (outputs0 s) inp"
    using rc tr by (simp add: butlast_append)
  have any: "\<exists>rc2 s2.
       filter_frame (env\<lparr>call_result := c\<rparr>) inlink inp s = Inr (rc2, s2) \<and>
       forwarded (since s s2) = [(outputs0 s, inp)] \<and>
       frame_heap s2 = frame_heap s' \<and> priv s2 = priv s' \<and> outputs0 s2 = outputs0 s'" for c
  proof -
    from filter_frame_steps [OF f, of "env\<lparr>call_result := c\<rparr>" inlink inp]
    obtain rc2 s2 r2 args2 where
      run2: "filter_frame (env\<lparr>call_result := c\<rparr>) inlink inp s = Inr (rc2, s2)" and
      tr2: "trace s2 = trace s @ [E_av_frame_make_writable inp,
                          E_PyObject_CallObject f args2 r2, E_Py_DECREF args2]
               @ (case r2 of None \<Rightarrow> [] | Some v \<Rightarrow> [E_Py_DECREF v])
               @ [E_ff_filter_frame (outputs0 s) inp rc2]" and
      keep2: "priv s2 = priv s" "outputs0 s2 = outputs0 s" and
      heap2: "frame_heap s2 = (frame_heap s)(inp := (frame_heap s inp)
                 \<lparr>data0 := writable_data0 (env\<lparr>call_result := c\<rparr>) (trace s) (frame_heap s inp)\<rparr>)"
      by blast
    have "forwarded (since s s2) = [(outputs0 s, inp)]"
      using since_append [OF tr2] by (simp add: forwarded_append split: option.splits)
    moreover have "frame_heap s2 = frame_heap s'"
      using heap heap2 by simp
    ultimately show ?thesis
      using run2 keep keep2 by simp
  qed
  show ?thesis
    using run seg one rc' any by blast
qed

theorem filter_frame_forwards_original_frame_witness:
  "steady demo_env (bound demo_config) \<and>
   (\<exists>rc s' seg.
      filter_frame demo_env demo_link 2 (bound demo_config) = Inr (rc, s') \<and>
      since (bound demo_config) s' = seg @ [E_ff_filter_frame 7 2 0] \<and>
      length (calls_of seg) = 1 \<and> forwarded seg = [] \<and>
      (\<exists>rc2 s2.
         filter_frame raising_env demo_link 2 (bound demo_config) = Inr (rc2, s2) \<and>
         forwarded (since (bound demo_config) s2) = [(7, 2)] \<and>
         frame_heap s2 = frame_heap s' \<and> priv s2 = priv s'))"
proof -
  have h: "steady demo_env (bound demo_config)"
    by (simp add: steady_def PyCallable_Check_def demo_defs)
  have o: "outputs0 (bound demo_config) = 7"
    by (simp add: demo_defs)
  from filter_frame_forwards_original_frame [OF h, of demo_link 2] obtain rc s' seg where
    *: "filter_frame demo_env demo_link 2 (bound demo_config) = Inr (rc, s')"
       "since (bound demo_config) s' = seg @ [E_ff_filter_frame (outputs0 (bound demo_config)) 2 rc]"
       "length (calls_of seg) = 1" "forwarded seg = []"
       "rc = downstream_result demo_env (trace (bound demo_config) @ seg)
               (outputs0 (bound demo_config)) 2"
       "\<forall>c. \<exists>rc2 s2.
         filter_frame (demo_env\<lparr>call_result := c\<rparr>) demo_link 2 (bound demo_config)
            = Inr (rc2, s2) \<and>
         forwarded (since (bound demo_config) s2) = [(outputs0 (bound demo_config), 2)] \<and>
         frame_heap s2 = frame_heap s' \<and> priv s2 = priv s' \<and> outputs0 s2 = outputs0 s'"
    by blast
  have "rc = 0"
    using *(5) by (simp add: demo_env_def)
  moreover from *(6) have "\<exists>rc2 s2.
         filter_frame raising_env demo_link 2 (bound demo_config) = Inr (rc2, s2) \<and>
         forwarded (since (bound demo_config) s2) = [(7, 2)] \<and>
         frame_heap s2 = frame_heap s' \<and> priv s2 = priv s'"
    unfolding raising_env_def o by blast
  ultimately show ?thesis
    using h * o by auto
qed

text \<open>
  Claim C3, as stated, asks that after a failing handler call the interpreter's error
  state is cleared. The file never clears it (no \<open>PyErr_Clear\<close>, \<open>PyErr_Print\<close> or
  \<open>PyErr_Fetch\<close> anywhere): a handler that raises on the first frame of the example
  stage leaves the error indicator set when \<open>filter_frame\<close> returns.
\<close>

theorem handler_failure_keeps_error_indicator:
  "steady raising_env (bound demo_config) \<and> \<not> py_err (bound demo_config) \<and>
   \<not> isl (filter_frame raising_env demo_link 0 (bound demo_config)) \<and>
   map (snd \<circ> snd)
     (calls_of (trace (snd (projr (filter_frame raising_env demo_link 0 (bound demo_config))))))
     = [None] \<and>
   py_err (snd (projr (filter_frame raising_env demo_link 0 (bound demo_config))))"
  by (simp add: steady_def filter_frame_def tuple4 api_defs Let_def demo_defs)

text \<open>
  Claim C3, amended. When the handler call of a frame fails, \<open>filter_frame\<close> still
  hands that frame downstream and returns the downstream stage's code, not an error of
  its own; the error indicator is left set; the stage is still in steady state, and
  every frame that arrives afterwards is again handed to the handler and forwarded, in
  order.
\<close>

theorem handler_failure_is_absorbed:
  assumes "steady env s"
    and "filter_frame env inlink inp s = Inr (rc, s')"
    and "(f, a, None) \<in> set (calls_of (since s s'))"
  shows "forwarded (since s s') = [(outputs0 s, inp)] \<and>
    rc = downstream_result env (butlast (trace s')) (outputs0 s) inp \<and>
    py_err s' \<and> steady env s' \<and>
    (\<forall>inps. \<exists>s2. steady_loop env inlink inps s' = Inr s2 \<and>
        forwarded (since s' s2) = map (Pair (outputs0 s)) inps \<and>
        length (calls_of (since s' s2)) = length inps)"
proof -
  from assms(1) obtain g where g: "pFunc (priv s) = Some g"
    using steady_pFunc by blast
  from filter_frame_steps [OF g, of env inlink inp] obtain rc0 s0 r args where
    run0: "filter_frame env inlink inp s = Inr (rc0, s0)" and
    tr0: "trace s0 = trace s @ [E_av_frame_make_writable inp, E_PyObject_CallObject g args r,
                          E_Py_DECREF args]
               @ (case r of None \<Rightarrow> [] | Some v \<Rightarrow> [E_Py_DECREF v])
               @ [E_ff_filter_frame (outputs0 s) inp rc0]" and
    rc0: "rc0 = downstream_result env (butlast (trace s0)) (outputs0 s) inp" and
    keep0: "priv s0 = priv s" "outputs0 s0 = outputs0 s" and
    err0: "py_err s0 = (py_err s \<or> r = None)"
    by (elim exE conjE) (rule that)
  from run0 assms(2) have same: "rc0 = rc" "s0 = s'"
    by simp_all
  note tr = tr0 [unfolded same] and rc = rc0 [unfolded same] and keep = keep0 [unfolded same]
    and err = err0 [unfolded same]
  have calls: "calls_of (since s s') = [(g, args, r)]"
    using since_append [OF tr] by (simp add: calls_of_append split: option.splits)
  with assms(3) have "r = None" by simp
  with err have "py_err s'" by simp
  moreover have "forwarded (since s s') = [(outputs0 s, inp)]"
    using since_append [OF tr] by (simp add: forwarded_append split: option.splits)
  moreover have st: "steady env s'"
    using assms(1) keep by (simp add: steady_def)
  moreover have "\<exists>s2. steady_loop env inlink inps s' = Inr s2 \<and>
        forwarded (since s' s2) = map (Pair (outputs0 s)) inps \<and>
        length (calls_of (since s' s2)) = length inps" for inps
  proof -
    from g keep have "pFunc (priv s') = Some g" by simp
    from steady_loop_steps [OF this, of env inlink inps] obtain s2 seg where
      *: "steady_loop env inlink inps s' = Inr s2" "trace s2 = trace s' @ seg"
         "forwarded seg = map (Pair (outputs0 s')) inps"
         "map fst (calls_of seg) = replicate (length inps) g"
      by blast
    from *(4) have "length (calls_of seg) = length inps"
      by (metis length_map length_replicate)
    with * keep show ?thesis
      using since_append [OF *(2)] by simp
  qed
  ultimately show ?thesis
    using rc by blast
qed

theorem handler_failure_is_absorbed_witness:
  "\<exists>rc s'. steady raising_env (bound demo_config) \<and>
     filter_frame raising_env demo_link 0 (bound demo_config) = Inr (rc, s') \<and>
     (PyObj 2, PyTuple [Some (PyFloat (double_mul (double_of_int64 0)
                                         (av_q2d \<lparr>num = 1, den = 25\<rparr>))),
                        Some (PyLong 64), Some (PyLong 64), Some (PyLong 4096)], None)
       \<in> set (calls_of (since (bound demo_config) s')) \<and>
     forwarded (since (bound demo_config) s') = [(7, 0)] \<and> rc = 0 \<and> py_err s' \<and>
     steady raising_env s' \<and>
     (\<exists>s2. steady_loop raising_env demo_link [1, 2] s' = Inr s2 \<and>
        forwarded (since s' s2) = [(7, 1), (7, 2)] \<and>
        length (calls_of (since s' s2)) = 2)"
proof -
  have h: "steady raising_env (bound demo_config)"
    by (simp add: steady_def PyCallable_Check_def demo_defs)
  obtain rc s' where run: "filter_frame raising_env demo_link 0 (bound demo_config) = Inr (rc, s')"
    by (simp add: filter_frame_def api_defs Let_def demo_defs)
  have call: "(PyObj 2, PyTuple [Some (PyFloat (double_mul (double_of_int64 0)
                                         (av_q2d \<lparr>num = 1, den = 25\<rparr>))),
                        Some (PyLong 64), Some (PyLong 64), Some (PyLong 4096)], None)
       \<in> set (calls_of (since (bound demo_config) s'))"
    using run
    by (auto simp: filter_frame_def tuple4 api_defs Let_def demo_defs since_def sint_long_of_int)
  have rc0: "downstream_result raising_env (butlast (trace s')) 7 0 = 0"
    by (simp add: demo_defs)
  have o: "outputs0 (bound demo_config) = 7"
    by (simp add: demo_defs)
  note F = handler_failure_is_absorbed [OF h run call, unfolded o]
  from F rc0 have a: "forwarded (since (bound demo_config) s') = [(7, 0)]" "rc = 0" "py_err s'"
    "steady raising_env s'"
    by simp_all
  from F obtain s2 where b: "steady_loop raising_env demo_link [1, 2] s' = Inr s2"
    "forwarded (since s' s2) = map (Pair 7) [1, 2]"
    "length (calls_of (since s' s2)) = length [1::nat, 2]"
    by blast
  from b have "\<exists>s2. steady_loop raising_env demo_link [1, 2] s' = Inr s2 \<and>
        forwarded (since s' s2) = [(7, 1), (7, 2)] \<and>
        length (calls_of (since s' s2)) = 2"
    by (intro exI [of _ s2]) (simp del: steady_loop.simps)
  with h run call a show ?thesis
    by blast
qed

subsection \<open>Activation\<close>

text \<open>
  Claim C4, as stated, asks that a failing initializer call fails the activation.
  \<open>check_and_call_init\<close> releases the call's result with \<open>Py_XDECREF\<close> and returns 0
  whether or not there is one: with \<open>setup\<close> raising, the example stage is activated all
  the same (\<open>init\<close> returns 0, steady state is reached).
\<close>

theorem initializer_failure_counterexample:
  "\<not> isl (init raising_env (fresh demo_config)) \<and>
   lookups (trace (snd (projr (init raising_env (fresh demo_config))))) =
     [(PyObj 1, ''process'', Some (PyObj 2)), (PyObj 1, ''setup'', Some (PyObj 3))] \<and>
   is_callable raising_env (PyObj 3) \<and>
   calls_of (trace (snd (projr (init raising_env (fresh demo_config))))) =
     [(PyObj 3, PyTuple [Some (PyUnicode ''gain=2'')], None)] \<and>
   fst (projr (init raising_env (fresh demo_config))) = 0 \<and>
   steady raising_env (snd (projr (init raising_env (fresh demo_config))))"
  by (simp add: steady_def fn_defs tuple1 api_defs Let_def demo_defs)

text \<open>
  Claim C4, amended. Whenever the initializer is called during activation and the call
  fails (produces no value), the failure is ignored: \<open>init\<close> returns 0 and the stage is in
  steady state. (What does fail the activation with \<open>AVERROR(EINVAL)\<close> at this step is
  an \<open>init_function\<close> that does not resolve to a callable attribute: then
  \<open>check_and_call_init\<close> returns \<open>-1\<close> without calling anything.)
\<close>

theorem initializer_failure_is_ignored:
  assumes "init env s = Inr (rc, s')"
    and "(i, a, None) \<in> set (calls_of (since s s'))"
  shows "rc = 0 \<and> steady env s'"
  using assms
  by (auto simp: fn_defs api_defs Let_def since_def steady_def tuple1
       split: option.splits if_splits prod.splits)

theorem initializer_failure_is_ignored_witness:
  "\<exists>rc s'. init raising_env (fresh demo_config) = Inr (rc, s') \<and>
     (PyObj 3, PyTuple [Some (PyUnicode ''gain=2'')], None)
        \<in> set (calls_of (since (fresh demo_config) s')) \<and>
     rc = 0 \<and> steady raising_env s'"
proof -
  obtain rc s' where run: "init raising_env (fresh demo_config) = Inr (rc, s')"
    by (simp add: fn_defs api_defs Let_def demo_defs)
  have call: "(PyObj 3, PyTuple [Some (PyUnicode ''gain=2'')], None)
        \<in> set (calls_of (since (fresh demo_config) s'))"
    using run by (auto simp: fn_defs tuple1 api_defs Let_def demo_defs since_def)
  from initializer_failure_is_ignored [OF run call] run call show ?thesis
    by blast
qed

text \<open>The other way \<open>check_and_call_init\<close> can end: nothing callable under the name.\<close>

lemma check_and_call_init_unresolved:
  assumes "init_function (priv s) = Some name" and "pModule (priv s) = Some m"
    and "\<not> PyCallable_Check env (getattr_result env (trace s) m name)"
  shows "\<exists>s'. check_and_call_init env s = Inr (- 1, s') \<and> calls_of (since s s') = []"
  using assms
  by (auto simp: fn_defs api_defs Let_def since_def split: option.splits)

text \<open>
  Claim C6. Let the module be named. If it cannot be imported, or it can and
  \<open>filter_function\<close> names an attribute that is missing, or one that is there but not
  callable, then \<open>init\<close> returns \<open>AVERROR(EINVAL)\<close>, the same code in all three cases,
  without having called anything; and the stage, whatever frames the host holds for it,
  ends where \<open>init\<close> left it: no frame is passed to a handler, none is forwarded.
\<close>

theorem activation_fails_on_unresolved_names:
  assumes "module (priv s) = Some mn"
    and "import_result env (trace s @ [E_Py_Initialize]) (PyUnicode mn) = None \<or>
         (\<exists>m fn. import_result env (trace s @ [E_Py_Initialize]) (PyUnicode mn) = Some m \<and>
            filter_function (priv s) = Some fn \<and>
            (getattr_result env
               (trace s @ [E_Py_Initialize, E_PyImport_Import (PyUnicode mn) (Some m),
                           E_Py_DECREF (PyUnicode mn)]) m fn = None \<or>
             (\<exists>f. getattr_result env
               (trace s @ [E_Py_Initialize, E_PyImport_Import (PyUnicode mn) (Some m),
                           E_Py_DECREF (PyUnicode mn)]) m fn = Some f \<and>
               \<not> is_callable env f)))"
  shows "\<exists>s'. init env s = Inr (AVERROR EINVAL, s') \<and>
     calls_of (since s s') = [] \<and> forwarded (since s s') = [] \<and>
     (\<forall>inps. stage env inlink inps s = Inr s')"
proof -
  have "\<exists>s'. init env s = Inr (AVERROR EINVAL, s') \<and>
     calls_of (since s s') = [] \<and> forwarded (since s s') = []"
    using assms
    by (auto simp: init_def api_defs Let_def since_def split: option.splits)
  then obtain s' where s': "init env s = Inr (AVERROR EINVAL, s')"
     "calls_of (since s s') = []" "forwarded (since s s') = []"
    by blast
  have "stage env inlink inps s = Inr s'" for inps
    using s'(1) by (simp add: stage_def and_then_def AVERROR_def EINVAL_def)
  with s' show ?thesis
    by blast
qed

theorem activation_fails_on_unresolved_names_witness:
  "(\<exists>s'. init demo_env (fresh (demo_config\<lparr>module := Some ''nosuch''\<rparr>))
            = Inr (AVERROR EINVAL, s') \<and>
         calls_of (trace s') = [] \<and>
         stage demo_env demo_link [0, 1, 2] (fresh (demo_config\<lparr>module := Some ''nosuch''\<rparr>))
            = Inr s') \<and>
   (\<exists>s'. init demo_env (fresh (demo_config\<lparr>filter_function := Some ''missing''\<rparr>))
            = Inr (AVERROR EINVAL, s') \<and>
         calls_of (trace s') = [] \<and>
         stage demo_env demo_link [0, 1, 2]
            (fresh (demo_config\<lparr>filter_function := Some ''missing''\<rparr>)) = Inr s') \<and>
   (\<exists>s'. init demo_env (fresh (demo_config\<lparr>filter_function := Some ''version''\<rparr>))
            = Inr (AVERROR EINVAL, s') \<and>
         calls_of (trace s') = [] \<and>
         stage demo_env demo_link [0, 1, 2]
            (fresh (demo_config\<lparr>filter_function := Some ''version''\<rparr>)) = Inr s')"
proof -
  have since_fresh: "since (fresh cfg) s' = trace s'" for cfg s'
    by (simp add: since_def fresh_def)
  have "\<exists>s'. init demo_env (fresh (demo_config\<lparr>module := Some ''nosuch''\<rparr>))
            = Inr (AVERROR EINVAL, s') \<and>
         calls_of (since (fresh (demo_config\<lparr>module := Some ''nosuch''\<rparr>)) s') = [] \<and>
         forwarded (since (fresh (demo_config\<lparr>module := Some ''nosuch''\<rparr>)) s') = [] \<and>
         (\<forall>inps. stage demo_env demo_link inps
             (fresh (demo_config\<lparr>module := Some ''nosuch''\<rparr>)) = Inr s')"
    by (rule activation_fails_on_unresolved_names [where mn = "''nosuch''"])
       (simp_all add: demo_defs)
  then have a: "\<exists>s'. init demo_env (fresh (demo_config\<lparr>module := Some ''nosuch''\<rparr>))
            = Inr (AVERROR EINVAL, s') \<and>
         calls_of (trace s') = [] \<and>
         stage demo_env demo_link [0, 1, 2] (fresh (demo_config\<lparr>module := Some ''nosuch''\<rparr>))
            = Inr s'"
    unfolding since_fresh by blast
  have "\<exists>s'. init demo_env (fresh (demo_config\<lparr>filter_function := Some ''missing''\<rparr>))
            = Inr (AVERROR EINVAL, s') \<and>
         calls_of (since (fresh (demo_config\<lparr>filter_function := Some ''missing''\<rparr>)) s') = [] \<and>
         forwarded (since (fresh (demo_config\<lparr>filter_function := Some ''missing''\<rparr>)) s') = [] \<and>
         (\<forall>inps. stage demo_env demo_link inps
             (fresh (demo_config\<lparr>filter_function := Some ''missing''\<rparr>)) = Inr s')"
    by (rule activation_fails_on_unresolved_names [where mn = "''demo''"])
       (simp_all add: demo_defs)
  then have b: "\<exists>s'. init demo_env (fresh (demo_config\<lparr>filter_function := Some ''missing''\<rparr>))
            = Inr (AVERROR EINVAL, s') \<and>
         calls_of (trace s') = [] \<and>
         stage demo_env demo_link [0, 1, 2]
            (fresh (demo_config\<lparr>filter_function := Some ''missing''\<rparr>)) = Inr s'"
    unfolding since_fresh by blast
  have "\<exists>s'. init demo_env (fresh (demo_config\<lparr>filter_function := Some ''version''\<rparr>))
            = Inr (AVERROR EINVAL, s') \<and>
         calls_of (since (fresh (demo_config\<lparr>filter_function := Some ''version''\<rparr>)) s') = [] \<and>
         forwarded (since (fresh (demo_config\<lparr>filter_function := Some ''version''\<rparr>)) s') = [] \<and>
         (\<forall>inps. stage demo_env demo_link inps
             (fresh (demo_config\<lparr>filter_function := Some ''version''\<rparr>)) = Inr s')"
    by (rule activation_fails_on_unresolved_names [where mn = "''demo''"])
       (simp_all add: demo_defs)
  then have c: "\<exists>s'. init demo_env (fresh (demo_config\<lparr>filter_function := Some ''version''\<rparr>))
            = Inr (AVERROR EINVAL, s') \<and>
         calls_of (trace s') = [] \<and>
         stage demo_env demo_link [0, 1, 2]
            (fresh (demo_config\<lparr>filter_function := Some ''version''\<rparr>)) = Inr s'"
    unfolding since_fresh by blast
  from a b c show ?thesis
    by blast
qed

lemma init_returns:
  assumes "init env s = Inr (rc, s')"
  shows "(rc = 0 \<and> steady env s') \<or> (rc = AVERROR EINVAL \<and> calls_of (since s s') = [])"
  using assms
  by (auto simp: fn_defs api_defs Let_def since_def steady_def
       split: option.splits if_splits prod.splits)

lemma init_no_frames:
  assumes "init env s = Inr (rc, s')"
  shows "forwarded (since s s') = []"
  using assms
  by (auto simp: fn_defs api_defs Let_def since_def
       split: option.splits if_splits prod.splits)

text \<open>
  Claim C9. When activation succeeds (\<open>init\<close> returns 0), \<open>pModule\<close> and \<open>pFunc\<close> are
  both non-null and \<open>pFunc\<close> passes \<open>PyCallable_Check\<close>. \<open>filter_frame\<close> writes to
  neither field, so both keep their values over every frame of the steady loop. And if
  the module is imported but \<open>filter_function\<close> resolves to nothing callable, \<open>init\<close>
  returns \<open>AVERROR(EINVAL)\<close> and the stage ends there, with no frame handled.
\<close>

theorem bound_references_invariant:
  "(init env s = Inr (0, s1) \<longrightarrow>
      steady env s1 \<and>
      (\<forall>inps. \<exists>s2. steady_loop env inlink inps s1 = Inr s2 \<and>
          pModule (priv s2) = pModule (priv s1) \<and> pFunc (priv s2) = pFunc (priv s1))) \<and>
   (steady env s \<longrightarrow>
      (\<exists>rc s'. filter_frame env inlink inp s = Inr (rc, s') \<and>
          pModule (priv s') = pModule (priv s) \<and> pFunc (priv s') = pFunc (priv s) \<and>
          steady env s')) \<and>
   (module (priv s) = Some mn \<and>
    import_result env (trace s @ [E_Py_Initialize]) (PyUnicode mn) = Some m \<and>
    filter_function (priv s) = Some fn \<and>
    \<not> PyCallable_Check env
         (getattr_result env
            (trace s @ [E_Py_Initialize, E_PyImport_Import (PyUnicode mn) (Some m),
                        E_Py_DECREF (PyUnicode mn)]) m fn) \<longrightarrow>
      (\<exists>s'. init env s = Inr (AVERROR EINVAL, s') \<and>
          (\<forall>inps. stage env inlink inps s = Inr s') \<and>
          calls_of (since s s') = [] \<and> forwarded (since s s') = []))"
proof (intro conjI impI)
  assume ok: "init env s = Inr (0, s1)"
  from init_returns [OF ok] show st: "steady env s1"
    by (simp add: AVERROR_def EINVAL_def)
  then obtain f where f: "pFunc (priv s1) = Some f"
    using steady_pFunc by blast
  show "\<forall>inps. \<exists>s2. steady_loop env inlink inps s1 = Inr s2 \<and>
          pModule (priv s2) = pModule (priv s1) \<and> pFunc (priv s2) = pFunc (priv s1)"
  proof
    fix inps
    from steady_loop_steps [OF f, of env inlink inps] obtain s2 where
      "steady_loop env inlink inps s1 = Inr s2" "priv s2 = priv s1"
      by blast
    then show "\<exists>s2. steady_loop env inlink inps s1 = Inr s2 \<and>
          pModule (priv s2) = pModule (priv s1) \<and> pFunc (priv s2) = pFunc (priv s1)"
      by simp
  qed
next
  assume st: "steady env s"
  then obtain f where f: "pFunc (priv s) = Some f"
    using steady_pFunc by blast
  from filter_frame_steps [OF f, of env inlink inp] obtain rc s' where
    "filter_frame env inlink inp s = Inr (rc, s')" "priv s' = priv s"
    by blast
  with st show "\<exists>rc s'. filter_frame env inlink inp s = Inr (rc, s') \<and>
          pModule (priv s') = pModule (priv s) \<and> pFunc (priv s') = pFunc (priv s) \<and>
          steady env s'"
    by (simp add: steady_def)
next
  assume bad: "module (priv s) = Some mn \<and>
    import_result env (trace s @ [E_Py_Initialize]) (PyUnicode mn) = Some m \<and>
    filter_function (priv s) = Some fn \<and>
    \<not> PyCallable_Check env
         (getattr_result env
            (trace s @ [E_Py_Initialize, E_PyImport_Import (PyUnicode mn) (Some m),
                        E_Py_DECREF (PyUnicode mn)]) m fn)"
  then have "\<exists>s'. init env s = Inr (AVERROR EINVAL, s')"
    by (auto simp: init_def api_defs Let_def split: option.splits)
  then obtain s' where s': "init env s = Inr (AVERROR EINVAL, s')"
    by blast
  have "stage env inlink inps s = Inr s'" for inps
    using s' by (simp add: stage_def and_then_def AVERROR_def EINVAL_def)
  moreover from init_returns [OF s'] have "calls_of (since s s') = []"
    by (simp add: AVERROR_def EINVAL_def)
  ultimately show "\<exists>s'. init env s = Inr (AVERROR EINVAL, s') \<and>
          (\<forall>inps. stage env inlink inps s = Inr s') \<and>
          calls_of (since s s') = [] \<and> forwarded (since s s') = []"
    using s' init_no_frames [OF s'] by blast
qed

theorem bound_references_invariant_witness:
  "(\<exists>s1. init demo_env (fresh demo_config) = Inr (0, s1) \<and> steady demo_env s1 \<and>
      pModule (priv s1) = Some (PyObj 1) \<and> pFunc (priv s1) = Some (PyObj 2) \<and>
      (\<exists>s2. steady_loop demo_env demo_link [0, 1, 2] s1 = Inr s2 \<and>
          pModule (priv s2) = Some (PyObj 1) \<and> pFunc (priv s2) = Some (PyObj 2))) \<and>
   steady demo_env (bound demo_config) \<and>
   (\<exists>rc s'. filter_frame demo_env demo_link 0 (bound demo_config) = Inr (rc, s') \<and>
      pModule (priv s') = Some (PyObj 1) \<and> pFunc (priv s') = Some (PyObj 2) \<and>
      steady demo_env s') \<and>
   (\<exists>s'. init demo_env (fresh (demo_config\<lparr>filter_function := Some ''version''\<rparr>))
            = Inr (AVERROR EINVAL, s') \<and>
      stage demo_env demo_link [0, 1, 2]
        (fresh (demo_config\<lparr>filter_function := Some ''version''\<rparr>)) = Inr s' \<and>
      calls_of (trace s') = [])"
proof -
  have since_fresh: "since (fresh cfg) s' = trace s'" for cfg s'
    by (simp add: since_def fresh_def)
  obtain s1 where run: "init demo_env (fresh demo_config) = Inr (0, s1)"
    by (simp add: fn_defs api_defs Let_def demo_defs)
  have refs: "pModule (priv s1) = Some (PyObj 1)" "pFunc (priv s1) = Some (PyObj 2)"
    using run by (auto simp: fn_defs api_defs Let_def demo_defs)
  note inv = bound_references_invariant [of demo_env "fresh demo_config" s1 demo_link]
  from inv run have st: "steady demo_env s1"
    by blast
  from inv run obtain s2 where "steady_loop demo_env demo_link [0, 1, 2] s1 = Inr s2"
    "pModule (priv s2) = pModule (priv s1)" "pFunc (priv s2) = pFunc (priv s1)"
    by blast
  with refs have loop: "\<exists>s2. steady_loop demo_env demo_link [0, 1, 2] s1 = Inr s2 \<and>
          pModule (priv s2) = Some (PyObj 1) \<and> pFunc (priv s2) = Some (PyObj 2)"
    by (intro exI [of _ s2]) (simp del: steady_loop.simps)
  have h: "steady demo_env (bound demo_config)"
    by (simp add: steady_def PyCallable_Check_def demo_defs)
  have brefs: "pModule (priv (bound demo_config)) = Some (PyObj 1)"
    "pFunc (priv (bound demo_config)) = Some (PyObj 2)"
    by (simp_all add: demo_defs)
  from bound_references_invariant [of demo_env "bound demo_config" _ demo_link 0] h
  have "\<exists>rc s'. filter_frame demo_env demo_link 0 (bound demo_config) = Inr (rc, s') \<and>
      pModule (priv s') = pModule (priv (bound demo_config)) \<and>
      pFunc (priv s') = pFunc (priv (bound demo_config)) \<and> steady demo_env s'"
    by blast
  then have frame: "\<exists>rc s'. filter_frame demo_env demo_link 0 (bound demo_config) = Inr (rc, s') \<and>
      pModule (priv s') = Some (PyObj 1) \<and> pFunc (priv s') = Some (PyObj 2) \<and>
      steady demo_env s'"
    unfolding brefs .
  have bad: "module (priv (fresh (demo_config\<lparr>filter_function := Some ''version''\<rparr>)))
      = Some ''demo'' \<and>
    import_result demo_env
      (trace (fresh (demo_config\<lparr>filter_function := Some ''version''\<rparr>)) @ [E_Py_Initialize])
      (PyUnicode ''demo'') = Some (PyObj 1) \<and>
    filter_function (priv (fresh (demo_config\<lparr>filter_function := Some ''version''\<rparr>)))
      = Some ''version'' \<and>
    \<not> PyCallable_Check demo_env
         (getattr_result demo_env
            (trace (fresh (demo_config\<lparr>filter_function := Some ''version''\<rparr>)) @
               [E_Py_Initialize, E_PyImport_Import (PyUnicode ''demo'') (Some (PyObj 1)),
                E_Py_DECREF (PyUnicode ''demo'')]) (PyObj 1) ''version'')"
    by (simp add: demo_defs PyCallable_Check_def)
  from bound_references_invariant
    [of demo_env "fresh (demo_config\<lparr>filter_function := Some ''version''\<rparr>)" _ demo_link _
        "''demo''" "PyObj 1" "''version''"] bad
  obtain s' where
    "init demo_env (fresh (demo_config\<lparr>filter_function := Some ''version''\<rparr>))
        = Inr (AVERROR EINVAL, s')"
    "\<forall>inps. stage demo_env demo_link inps
        (fresh (demo_config\<lparr>filter_function := Some ''version''\<rparr>)) = Inr s'"
    "calls_of (since (fresh (demo_config\<lparr>filter_function := Some ''version''\<rparr>)) s') = []"
    by blast
  then have fail: "\<exists>s'. init demo_env (fresh (demo_config\<lparr>filter_function := Some ''version''\<rparr>))
            = Inr (AVERROR EINVAL, s') \<and>
      stage demo_env demo_link [0, 1, 2]
        (fresh (demo_config\<lparr>filter_function := Some ''version''\<rparr>)) = Inr s' \<and>
      calls_of (trace s') = []"
    unfolding since_fresh by blast
  from run st refs loop h frame fail show ?thesis
    by blast
qed

text \<open>
  Claim C10. \<open>check_and_call_init\<close> tests \<open>init_function\<close> and the attribute it names,
  but not \<open>init_args\<close>. With \<open>init_function\<close> naming a callable attribute and
  \<open>init_args\<close> left \<open>NULL\<close>, it goes on to build the argument tuple and passes the
  null pointer to \<open>PyUnicode_DecodeFSDefault\<close>, which reads the string it is given: the
  run ends there, before any call.
\<close>

theorem init_args_null_is_decoded:
  assumes "init_function (priv s) = Some name"
    and "pModule (priv s) = Some m"
    and "getattr_result env (trace s) m name = Some i"
    and "is_callable env i"
    and "init_args (priv s) = None"
  shows "PyUnicode_DecodeFSDefault (init_args (priv s))
           = Inl (NULL_passed_to ''PyUnicode_DecodeFSDefault'') \<and>
         check_and_call_init env s = Inl (NULL_passed_to ''PyUnicode_DecodeFSDefault'')"
  using assms
  by (simp add: check_and_call_init_def api_defs Let_def)

theorem init_args_null_is_decoded_witness:
  "init_function (priv (bound (demo_config\<lparr>init_args := None\<rparr>))) = Some ''setup'' \<and>
   pModule (priv (bound (demo_config\<lparr>init_args := None\<rparr>))) = Some (PyObj 1) \<and>
   getattr_result demo_env (trace (bound (demo_config\<lparr>init_args := None\<rparr>))) (PyObj 1) ''setup''
     = Some (PyObj 3) \<and>
   is_callable demo_env (PyObj 3) \<and>
   init_args (priv (bound (demo_config\<lparr>init_args := None\<rparr>))) = None \<and>
   check_and_call_init demo_env (bound (demo_config\<lparr>init_args := None\<rparr>))
     = Inl (NULL_passed_to ''PyUnicode_DecodeFSDefault'')"
proof -
  have h: "init_function (priv (bound (demo_config\<lparr>init_args := None\<rparr>))) = Some ''setup''"
    "pModule (priv (bound (demo_config\<lparr>init_args := None\<rparr>))) = Some (PyObj 1)"
    "getattr_result demo_env (trace (bound (demo_config\<lparr>init_args := None\<rparr>))) (PyObj 1)
       ''setup'' = Some (PyObj 3)"
    "is_callable demo_env (PyObj 3)"
    "init_args (priv (bound (demo_config\<lparr>init_args := None\<rparr>))) = None"
    by (simp_all add: demo_defs)
  from init_args_null_is_decoded [OF h] h show ?thesis
    by blast
qed

subsection \<open>Teardown\<close>

text \<open>
  \<open>uninit\<close> on a stage that holds both references, step by step: the finalizer part
  (\<open>check_and_call_uninit\<close> and the log line), then one release of the filter reference,
  one of the module reference, and the shutdown of the interpreter.
\<close>

lemma uninit_steps:
  assumes "pModule (priv s) = Some m" and "pFunc (priv s) = Some f"
  shows "\<exists>s' fin. uninit env s = Inr s' \<and> priv s' = priv s \<and>
    trace s' = trace s @ fin @ [E_Py_DECREF f, E_Py_DECREF m, E_Py_FinalizeEx] \<and>
    fin = (case uninit_function (priv s) of
             None \<Rightarrow> []
           | Some name \<Rightarrow>
              (case getattr_result env (trace s) m name of
                 None \<Rightarrow> [E_PyObject_GetAttrString m name None,
                          E_av_log ''could not call uninit function\<newline>'']
               | Some u \<Rightarrow>
                   if is_callable env u then
                     [E_PyObject_GetAttrString m name (Some u),
                      E_PyObject_CallObject u (PyTuple [])
                        (call_result env (trace s @ [E_PyObject_GetAttrString m name (Some u)])
                           u (PyTuple [])),
                      E_Py_DECREF (PyTuple [])]
                     @ (case call_result env
                               (trace s @ [E_PyObject_GetAttrString m name (Some u)])
                               u (PyTuple []) of
                          None \<Rightarrow> [] | Some v \<Rightarrow> [E_Py_DECREF v])
                     @ [E_Py_DECREF u]
                   else [E_PyObject_GetAttrString m name (Some u), E_Py_DECREF u,
                         E_av_log ''could not call uninit function\<newline>'']))"
  using assms
  by (auto simp: uninit_def check_and_call_uninit_def tuple0 api_defs Let_def
        split: option.splits)

text \<open>With a reference missing, \<open>uninit\<close> does not get past its \<open>Py_DECREF\<close>s.\<close>

lemma uninit_null_reference:
  assumes "uninit_function (priv s) = None"
    and "pFunc (priv s) = None \<or> pModule (priv s) = None"
  shows "uninit env s = Inl (NULL_passed_to ''Py_DECREF'')"
  using assms
  by (auto simp: uninit_def check_and_call_uninit_def api_defs Let_def split: option.splits)

lemma uninit_null_module_with_finalizer:
  assumes "uninit_function (priv s) = Some name" and "pModule (priv s) = None"
  shows "uninit env s = Inl (NULL_passed_to ''PyObject_GetAttrString'')"
  using assms
  by (simp add: uninit_def check_and_call_uninit_def api_defs Let_def)

text \<open>
  In steady state teardown completes whatever the finalizer does, and after the finalizer
  part it releases the filter reference and the module reference, once each, and nothing
  else.
\<close>

lemma uninit_steady_releases_once:
  assumes "steady env s"
  shows "\<exists>s' fin f m. uninit env s = Inr s' \<and>
    pFunc (priv s) = Some f \<and> pModule (priv s) = Some m \<and>
    since s s' = fin @ [E_Py_DECREF f, E_Py_DECREF m, E_Py_FinalizeEx] \<and>
    released (since s s') = released fin @ [f, m] \<and>
    forwarded fin = [] \<and> length (calls_of fin) \<le> 1"
proof -
  from assms obtain m f where mf: "pModule (priv s) = Some m" "pFunc (priv s) = Some f"
    by (auto simp: steady_def)
  from uninit_steps [OF mf, of env] obtain s' fin where
    *: "uninit env s = Inr s'"
       "trace s' = trace s @ fin @ [E_Py_DECREF f, E_Py_DECREF m, E_Py_FinalizeEx]" and
    fin: "fin = (case uninit_function (priv s) of
             None \<Rightarrow> []
           | Some name \<Rightarrow>
              (case getattr_result env (trace s) m name of
                 None \<Rightarrow> [E_PyObject_GetAttrString m name None,
                          E_av_log ''could not call uninit function\<newline>'']
               | Some u \<Rightarrow>
                   if is_callable env u then
                     [E_PyObject_GetAttrString m name (Some u),
                      E_PyObject_CallObject u (PyTuple [])
                        (call_result env (trace s @ [E_PyObject_GetAttrString m name (Some u)])
                           u (PyTuple [])),
                      E_Py_DECREF (PyTuple [])]
                     @ (case call_result env
                               (trace s @ [E_PyObject_GetAttrString m name (Some u)])
                               u (PyTuple []) of
                          None \<Rightarrow> [] | Some v \<Rightarrow> [E_Py_DECREF v])
                     @ [E_Py_DECREF u]
                   else [E_PyObject_GetAttrString m name (Some u), E_Py_DECREF u,
                         E_av_log ''could not call uninit function\<newline>'']))"
    by blast
  have "forwarded fin = []" "length (calls_of fin) \<le> 1"
    unfolding fin by (simp_all add: forwarded_append calls_of_append split: option.splits)
  moreover have "released (since s s') = released fin @ [f, m]"
    using since_append [OF *(2)] by (simp add: released_append)
  ultimately show ?thesis
    using * mf since_append [OF *(2)] by blast
qed

text \<open>
  Claim C5, where the code departs from it. The module of the example cannot be found:
  \<open>init\<close> returns \<open>AVERROR(EINVAL)\<close> and leaves \<open>pModule\<close> and \<open>pFunc\<close> null, as
  they were. The host frees the filter, which calls \<open>uninit\<close>; \<open>uninit\<close> applies
  \<open>Py_DECREF\<close>, not \<open>Py_XDECREF\<close>, to \<open>pFunc\<close>: the null reference is not skipped
  but dereferenced, and teardown does not run to completion.
\<close>

theorem uninit_after_failed_activation:
  "\<not> isl (init demo_env (fresh (demo_config\<lparr>module := Some ''nosuch''\<rparr>))) \<and>
   fst (projr (init demo_env (fresh (demo_config\<lparr>module := Some ''nosuch''\<rparr>))))
     = AVERROR EINVAL \<and>
   pModule (priv (snd (projr (init demo_env (fresh (demo_config\<lparr>module := Some ''nosuch''\<rparr>))))))
     = None \<and>
   pFunc (priv (snd (projr (init demo_env (fresh (demo_config\<lparr>module := Some ''nosuch''\<rparr>))))))
     = None \<and>
   uninit demo_env (snd (projr (init demo_env (fresh (demo_config\<lparr>module := Some ''nosuch''\<rparr>)))))
     = Inl (NULL_passed_to ''Py_DECREF'')"
  by (simp add: fn_defs api_defs Let_def demo_defs)

subsection \<open>The whole life of a stage\<close>

lemma init_keeps_options:
  assumes "init env s = Inr (rc, s')"
  shows "module (priv s') = module (priv s) \<and> init_function (priv s') = init_function (priv s) \<and>
    init_args (priv s') = init_args (priv s) \<and>
    filter_function (priv s') = filter_function (priv s) \<and>
    uninit_function (priv s') = uninit_function (priv s) \<and> outputs0 s' = outputs0 s"
  using assms
  by (auto simp: fn_defs api_defs Let_def split: option.splits if_splits prod.splits)

text \<open>
  After a successful activation the stage handles every frame, in order, then tears
  down; the three phases follow one another in the trace.
\<close>

lemma stage_steps:
  assumes "init env s0 = Inr (0, s1)"
  shows "\<exists>s2 sf. steady_loop env inlink inps s1 = Inr s2 \<and> uninit env s2 = Inr sf \<and>
    stage env inlink inps s0 = Inr sf \<and> priv s2 = priv s1 \<and> steady env s2 \<and>
    trace s2 = trace s1 @ since s1 s2 \<and> trace sf = trace s2 @ since s2 sf \<and>
    forwarded (since s1 s2) = map (Pair (outputs0 s1)) inps"
proof -
  from init_returns [OF assms] have st: "steady env s1"
    by (simp add: AVERROR_def EINVAL_def)
  then obtain f where f: "pFunc (priv s1) = Some f"
    using steady_pFunc by blast
  from steady_loop_steps [OF f, of env inlink inps] obtain s2 seg where
    loop: "steady_loop env inlink inps s1 = Inr s2" "trace s2 = trace s1 @ seg"
      "priv s2 = priv s1" "forwarded seg = map (Pair (outputs0 s1)) inps"
    by blast
  from st loop(3) have st2: "steady env s2"
    by (simp add: steady_def)
  from uninit_steady_releases_once [OF st2] obtain sf fin g m where
    un: "uninit env s2 = Inr sf"
      "since s2 sf = fin @ [E_Py_DECREF g, E_Py_DECREF m, E_Py_FinalizeEx]"
    by blast
  from st2 obtain m' f' where "pModule (priv s2) = Some m'" "pFunc (priv s2) = Some f'"
    by (auto simp: steady_def)
  from uninit_steps [OF this, of env] un(1) have ext: "trace sf = trace s2 @ since s2 sf"
    by (auto simp: since_def)
  have "stage env inlink inps s0 = Inr sf"
    using assms loop(1) un(1) by (simp add: stage_def and_then_def)
  with loop un(1) st2 ext show ?thesis
    using since_append [OF loop(2)] by simp
qed

text \<open>
  Claim C8, as stated, has the finalizer invoked whenever \<open>uninit_function\<close> is set.
  \<open>check_and_call_uninit\<close> calls only what resolves to a callable attribute: with
  \<open>uninit_function\<close> naming an attribute the module does not have, or one that is not
  callable, teardown of the example stage completes without any call.
\<close>

theorem finalizer_not_invoked_counterexample:
  "uninit_function (priv (bound (demo_config\<lparr>uninit_function := Some ''missing''\<rparr>)))
     = Some ''missing'' \<and>
   \<not> isl (uninit demo_env (bound (demo_config\<lparr>uninit_function := Some ''missing''\<rparr>))) \<and>
   calls_of (trace (projr
      (uninit demo_env (bound (demo_config\<lparr>uninit_function := Some ''missing''\<rparr>))))) = [] \<and>
   uninit_function (priv (bound (demo_config\<lparr>uninit_function := Some ''version''\<rparr>)))
     = Some ''version'' \<and>
   \<not> isl (uninit demo_env (bound (demo_config\<lparr>uninit_function := Some ''version''\<rparr>))) \<and>
   calls_of (trace (projr
      (uninit demo_env (bound (demo_config\<lparr>uninit_function := Some ''version''\<rparr>))))) = []"
  by (simp add: fn_defs api_defs Let_def demo_defs)

text \<open>
  Claim C8, amended. Take a stage whose activation succeeded. All its frames are handled
  first; then comes the finalizer part; then \<open>Py_FinalizeEx\<close>, last. If
  \<open>uninit_function\<close> is unset, the finalizer part resolves nothing and calls nothing. If
  it is set, the name is looked up once in the module; if that gives a callable
  attribute, it is invoked exactly once, with the empty tuple; if not, nothing is
  invoked.
\<close>

theorem finalizer_invocation:
  assumes "init env s0 = Inr (0, s1)"
  shows "\<exists>s2 sf seg.
    steady_loop env inlink inps s1 = Inr s2 \<and>
    forwarded (since s1 s2) = map (Pair (outputs0 s1)) inps \<and>
    uninit env s2 = Inr sf \<and> stage env inlink inps s0 = Inr sf \<and>
    since s2 sf = seg @ [E_Py_FinalizeEx] \<and> forwarded seg = [] \<and>
    (uninit_function (priv s0) = None \<longrightarrow> calls_of seg = [] \<and> lookups seg = []) \<and>
    (\<forall>name. uninit_function (priv s0) = Some name \<longrightarrow>
       (\<exists>m. pModule (priv s1) = Some m \<and>
          lookups seg = [(m, name, getattr_result env (trace s2) m name)] \<and>
          (if PyCallable_Check env (getattr_result env (trace s2) m name)
           then \<exists>u r. getattr_result env (trace s2) m name = Some u \<and>
                  calls_of seg = [(u, PyTuple [], r)]
           else calls_of seg = [])))"
proof -
  from stage_steps [OF assms, of inlink inps] obtain s2 sf where
    st: "steady_loop env inlink inps s1 = Inr s2" "uninit env s2 = Inr sf"
      "stage env inlink inps s0 = Inr sf" "priv s2 = priv s1" "steady env s2"
      "forwarded (since s1 s2) = map (Pair (outputs0 s1)) inps"
    by blast
  from st(5) obtain m f where mf: "pModule (priv s2) = Some m" "pFunc (priv s2) = Some f"
    by (auto simp: steady_def)
  from init_keeps_options [OF assms] st(4)
  have opt: "uninit_function (priv s2) = uninit_function (priv s0)"
    by simp
  from uninit_steps [OF mf, of env] st(2) obtain fin where
    tr: "trace sf = trace s2 @ fin @ [E_Py_DECREF f, E_Py_DECREF m, E_Py_FinalizeEx]" and
    fin: "fin = (case uninit_function (priv s2) of
             None \<Rightarrow> []
           | Some name \<Rightarrow>
              (case getattr_result env (trace s2) m name of
                 None \<Rightarrow> [E_PyObject_GetAttrString m name None,
                          E_av_log ''could not call uninit function\<newline>'']
               | Some u \<Rightarrow>
                   if is_callable env u then
                     [E_PyObject_GetAttrString m name (Some u),
                      E_PyObject_CallObject u (PyTuple [])
                        (call_result env (trace s2 @ [E_PyObject_GetAttrString m name (Some u)])
                           u (PyTuple [])),
                      E_Py_DECREF (PyTuple [])]
                     @ (case call_result env
                               (trace s2 @ [E_PyObject_GetAttrString m name (Some u)])
                               u (PyTuple []) of
                          None \<Rightarrow> [] | Some v \<Rightarrow> [E_Py_DECREF v])
                     @ [E_Py_DECREF u]
                   else [E_PyObject_GetAttrString m name (Some u), E_Py_DECREF u,
                         E_av_log ''could not call uninit function\<newline>'']))"
    by auto
  let ?seg = "fin @ [E_Py_DECREF f, E_Py_DECREF m]"
  have seg: "since s2 sf = ?seg @ [E_Py_FinalizeEx]"
    using since_append [OF tr] by simp
  have fw: "forwarded ?seg = []"
    unfolding fin by (simp add: forwarded_append split: option.splits)
  have unset: "uninit_function (priv s0) = None \<longrightarrow> calls_of ?seg = [] \<and> lookups ?seg = []"
    unfolding fin opt by (simp add: calls_of_append lookups_append)
  have set: "\<forall>name. uninit_function (priv s0) = Some name \<longrightarrow>
       (\<exists>m. pModule (priv s1) = Some m \<and>
          lookups ?seg = [(m, name, getattr_result env (trace s2) m name)] \<and>
          (if PyCallable_Check env (getattr_result env (trace s2) m name)
           then \<exists>u r. getattr_result env (trace s2) m name = Some u \<and>
                  calls_of ?seg = [(u, PyTuple [], r)]
           else calls_of ?seg = []))"
    using mf(1) st(4) unfolding fin opt
    by (auto simp: calls_of_append lookups_append PyCallable_Check_def split: option.splits)
  from st(1,6,2,3) seg fw unset set show ?thesis
    by (intro exI [of _ s2] exI [of _ sf] exI [of _ ?seg] conjI)
qed

theorem finalizer_invocation_witness:
  "\<exists>s1 s2 sf seg r.
     init demo_env (fresh (demo_config\<lparr>uninit_function := Some ''teardown''\<rparr>)) = Inr (0, s1) \<and>
     steady_loop demo_env demo_link [0, 1, 2] s1 = Inr s2 \<and>
     forwarded (since s1 s2) = [(7, 0), (7, 1), (7, 2)] \<and>
     stage demo_env demo_link [0, 1, 2]
       (fresh (demo_config\<lparr>uninit_function := Some ''teardown''\<rparr>)) = Inr sf \<and>
     since s2 sf = seg @ [E_Py_FinalizeEx] \<and> forwarded seg = [] \<and>
     lookups seg = [(PyObj 1, ''teardown'', Some (PyObj 4))] \<and>
     calls_of seg = [(PyObj 4, PyTuple [], r)]"
proof -
  let ?s0 = "fresh (demo_config\<lparr>uninit_function := Some ''teardown''\<rparr>)"
  obtain s1 where run: "init demo_env ?s0 = Inr (0, s1)"
    by (simp add: fn_defs api_defs Let_def demo_defs)
  have m: "pModule (priv s1) = Some (PyObj 1)" "outputs0 s1 = 7"
    using run by (auto simp: fn_defs api_defs Let_def demo_defs)
  have name: "uninit_function (priv ?s0) = Some ''teardown''"
    by (simp add: demo_defs)
  have attr: "getattr_result demo_env tr (PyObj 1) ''teardown'' = Some (PyObj 4)" for tr
    by (simp add: demo_defs)
  have callable: "PyCallable_Check demo_env (Some (PyObj 4))"
    by (simp add: demo_defs PyCallable_Check_def)
  from finalizer_invocation [OF run, of demo_link "[0, 1, 2]"] obtain s2 sf seg where
    *: "steady_loop demo_env demo_link [0, 1, 2] s1 = Inr s2"
       "forwarded (since s1 s2) = map (Pair (outputs0 s1)) [0, 1, 2]"
       "stage demo_env demo_link [0, 1, 2] ?s0 = Inr sf"
       "since s2 sf = seg @ [E_Py_FinalizeEx]" "forwarded seg = []" and
    set: "\<forall>name. uninit_function (priv ?s0) = Some name \<longrightarrow>
       (\<exists>m. pModule (priv s1) = Some m \<and>
          lookups seg = [(m, name, getattr_result demo_env (trace s2) m name)] \<and>
          (if PyCallable_Check demo_env (getattr_result demo_env (trace s2) m name)
           then \<exists>u r. getattr_result demo_env (trace s2) m name = Some u \<and>
                  calls_of seg = [(u, PyTuple [], r)]
           else calls_of seg = []))"
    by blast
  from set name have "\<exists>m. pModule (priv s1) = Some m \<and>
          lookups seg = [(m, ''teardown'', getattr_result demo_env (trace s2) m ''teardown'')] \<and>
          (if PyCallable_Check demo_env (getattr_result demo_env (trace s2) m ''teardown'')
           then \<exists>u r. getattr_result demo_env (trace s2) m ''teardown'' = Some u \<and>
                  calls_of seg = [(u, PyTuple [], r)]
           else calls_of seg = [])"
    by blast
  with m(1) attr callable obtain r where
    fin: "lookups seg = [(PyObj 1, ''teardown'', Some (PyObj 4))]"
      "calls_of seg = [(PyObj 4, PyTuple [], r)]"
    by auto
  from *(2) m(2) have fw: "forwarded (since s1 s2) = [(7, 0), (7, 1), (7, 2)]"
    by simp
  from run *(1) fw *(3,4,5) fin show ?thesis
    by blast
qed

subsection \<open>The initializer\<close>

text \<open>
  Claim C7, as stated, has the initializer invoked whenever \<open>init_function\<close> is set. It
  is invoked only if activation gets that far and the name resolves to a callable
  attribute. In the example, with \<open>setup\<close> configured and callable but the filter
  function missing, \<open>init\<close> gives up before it reaches the initializer; and with
  \<open>init_function\<close> naming the non-callable \<open>version\<close> there is nothing to invoke. In
  both cases \<open>init\<close> returns without a single call.
\<close>

theorem initializer_not_invoked_counterexample:
  "init_function (priv (fresh (demo_config\<lparr>filter_function := Some ''missing''\<rparr>)))
     = Some ''setup'' \<and>
   \<not> isl (init demo_env (fresh (demo_config\<lparr>filter_function := Some ''missing''\<rparr>))) \<and>
   calls_of (trace (snd (projr
      (init demo_env (fresh (demo_config\<lparr>filter_function := Some ''missing''\<rparr>)))))) = [] \<and>
   init_function (priv (fresh (demo_config\<lparr>init_function := Some ''version''\<rparr>)))
     = Some ''version'' \<and>
   \<not> isl (init demo_env (fresh (demo_config\<lparr>init_function := Some ''version''\<rparr>))) \<and>
   calls_of (trace (snd (projr
      (init demo_env (fresh (demo_config\<lparr>init_function := Some ''version''\<rparr>)))))) = []"
  by (simp add: fn_defs api_defs Let_def demo_defs)

lemma stage_after_init:
  assumes "init env s = Inr (rc, s')" and "stage env inlink inps s = Inr sf"
  shows "trace sf = trace s' @ since s' sf"
proof (cases "rc < 0")
  case True
  with assms show ?thesis
    by (simp add: stage_def and_then_def since_def)
next
  case False
  with init_returns [OF assms(1)] have "rc = 0"
    by (auto simp: AVERROR_def EINVAL_def)
  with assms(1) have ok: "init env s = Inr (0, s')"
    by simp
  from stage_steps [OF ok, of inlink inps] assms(2) obtain s2 where
    "trace s2 = trace s' @ since s' s2" "trace sf = trace s2 @ since s2 sf"
    by auto
  then have "trace sf = trace s' @ (since s' s2 @ since s2 sf)"
    by simp
  from since_append [OF this] this show ?thesis
    by simp
qed

text \<open>
  Claim C7, amended. If \<open>init_function\<close> is unset, activation resolves nothing but the
  filter function and invokes nothing. If it is set and activation succeeds, the name
  was looked up in the module, gave a callable attribute, and that attribute was invoked
  exactly once, with a one-element tuple holding the configured \<open>init_args\<close> string. If
  activation fails, nothing was invoked. No frame is touched during activation, and
  whatever the stage does with frames comes after it in the trace.
\<close>

theorem initializer_invocation:
  assumes "init env s = Inr (rc, s')"
  shows "(init_function (priv s) = None \<longrightarrow>
            check_and_call_init env s = Inr (0, s) \<and> calls_of (since s s') = [] \<and>
            (lookups (since s s') = [] \<or>
             (\<exists>m fn r. filter_function (priv s) = Some fn \<and>
                lookups (since s s') = [(m, fn, r)]))) \<and>
         (\<forall>name. init_function (priv s) = Some name \<and> rc = 0 \<longrightarrow>
            (\<exists>m fn f i a r. pModule (priv s') = Some m \<and>
               filter_function (priv s) = Some fn \<and> init_args (priv s) = Some a \<and>
               lookups (since s s') = [(m, fn, Some f), (m, name, Some i)] \<and>
               is_callable env i \<and>
               calls_of (since s s') = [(i, PyTuple [Some (PyUnicode a)], r)])) \<and>
         (rc \<noteq> 0 \<longrightarrow> calls_of (since s s') = []) \<and>
         forwarded (since s s') = [] \<and>
         (\<forall>inps sf. stage env inlink inps s = Inr sf \<longrightarrow> trace sf = trace s' @ since s' sf)"
proof (intro conjI)
  show "init_function (priv s) = None \<longrightarrow>
            check_and_call_init env s = Inr (0, s) \<and> calls_of (since s s') = [] \<and>
            (lookups (since s s') = [] \<or>
             (\<exists>m fn r. filter_function (priv s) = Some fn \<and>
                lookups (since s s') = [(m, fn, r)]))"
    using assms
    by (auto simp: fn_defs api_defs Let_def since_def split: option.splits if_splits)
  show "\<forall>name. init_function (priv s) = Some name \<and> rc = 0 \<longrightarrow>
            (\<exists>m fn f i a r. pModule (priv s') = Some m \<and>
               filter_function (priv s) = Some fn \<and> init_args (priv s) = Some a \<and>
               lookups (since s s') = [(m, fn, Some f), (m, name, Some i)] \<and>
               is_callable env i \<and>
               calls_of (since s s') = [(i, PyTuple [Some (PyUnicode a)], r)])"
    using assms
    by (auto simp: fn_defs api_defs Let_def since_def tuple1 AVERROR_def EINVAL_def
          split: option.splits if_splits)
  show "rc \<noteq> 0 \<longrightarrow> calls_of (since s s') = []"
    using init_returns [OF assms] by auto
  show "forwarded (since s s') = []"
    by (rule init_no_frames [OF assms])
  show "\<forall>inps sf. stage env inlink inps s = Inr sf \<longrightarrow> trace sf = trace s' @ since s' sf"
    using stage_after_init [OF assms] by blast
qed

theorem initializer_invocation_witness:
  "(\<exists>s'. init demo_env (fresh (demo_config\<lparr>init_function := None\<rparr>)) = Inr (0, s') \<and>
      calls_of (since (fresh (demo_config\<lparr>init_function := None\<rparr>)) s') = [] \<and>
      lookups (since (fresh (demo_config\<lparr>init_function := None\<rparr>)) s')
        = [(PyObj 1, ''process'', Some (PyObj 2))]) \<and>
   (\<exists>s' r sf. init demo_env (fresh demo_config) = Inr (0, s') \<and>
      lookups (since (fresh demo_config) s')
        = [(PyObj 1, ''process'', Some (PyObj 2)), (PyObj 1, ''setup'', Some (PyObj 3))] \<and>
      calls_of (since (fresh demo_config) s')
        = [(PyObj 3, PyTuple [Some (PyUnicode ''gain=2'')], r)] \<and>
      forwarded (since (fresh demo_config) s') = [] \<and>
      stage demo_env demo_link [0, 1, 2] (fresh demo_config) = Inr sf \<and>
      trace sf = trace s' @ since s' sf)"
proof -
  let ?u = "fresh (demo_config\<lparr>init_function := None\<rparr>)"
  obtain su where unset: "init demo_env ?u = Inr (0, su)"
    by (simp add: fn_defs api_defs Let_def demo_defs)
  have lu: "lookups (since ?u su) = [(PyObj 1, ''process'', Some (PyObj 2))]"
    using unset by (auto simp: fn_defs api_defs Let_def demo_defs since_def)
  have "init_function (priv ?u) = None"
    by (simp add: demo_defs)
  with initializer_invocation [OF unset, of demo_link]
  have "calls_of (since ?u su) = []"
    by blast
  with unset lu have a: "\<exists>s'. init demo_env ?u = Inr (0, s') \<and>
      calls_of (since ?u s') = [] \<and>
      lookups (since ?u s') = [(PyObj 1, ''process'', Some (PyObj 2))]"
    by blast
  let ?s = "fresh demo_config"
  obtain s' where run: "init demo_env ?s = Inr (0, s')"
    by (simp add: fn_defs api_defs Let_def demo_defs)
  have ls: "lookups (since ?s s')
        = [(PyObj 1, ''process'', Some (PyObj 2)), (PyObj 1, ''setup'', Some (PyObj 3))]"
    using run by (auto simp: fn_defs api_defs Let_def demo_defs since_def)
  have cfg: "init_function (priv ?s) = Some ''setup''" "init_args (priv ?s) = Some ''gain=2''"
    by (simp_all add: demo_defs)
  note T = initializer_invocation [OF run, of demo_link]
  from T cfg(1) obtain m fn f i a r where
    "init_args (priv ?s) = Some a"
    "lookups (since ?s s') = [(m, fn, Some f), (m, ''setup'', Some i)]"
    "calls_of (since ?s s') = [(i, PyTuple [Some (PyUnicode a)], r)]"
    by blast
  with cfg(2) ls have calls: "calls_of (since ?s s')
        = [(PyObj 3, PyTuple [Some (PyUnicode ''gain=2'')], r)]"
    by simp
  from T have fw: "forwarded (since ?s s') = []"
    by blast
  from stage_steps [OF run, of demo_link "[0, 1, 2]"] obtain sf where
    stage: "stage demo_env demo_link [0, 1, 2] ?s = Inr sf"
    by blast
  with T have "trace sf = trace s' @ since s' sf"
    by blast
  with run ls calls fw stage have b: "\<exists>s' r sf. init demo_env ?s = Inr (0, s') \<and>
      lookups (since ?s s')
        = [(PyObj 1, ''process'', Some (PyObj 2)), (PyObj 1, ''setup'', Some (PyObj 3))] \<and>
      calls_of (since ?s s') = [(PyObj 3, PyTuple [Some (PyUnicode ''gain=2'')], r)] \<and>
      forwarded (since ?s s') = [] \<and>
      stage demo_env demo_link [0, 1, 2] ?s = Inr sf \<and>
      trace sf = trace s' @ since s' sf"
    by blast
  from a b show ?thesis
    by blast
qed

end
